theory Spec2Isabelle
  imports Main
begin

section \<open>Exceptions\<close>

text \<open>
  The three exception classes that can leave the code of \<^verbatim>\<open>non_lazy_tensor.py\<close>. A raise
  is a result \<open>Inl e\<close>, a normal return is \<open>Inr v\<close>. The messages of the two exceptions the
  file raises itself are written out; the messages of the exceptions raised inside the
  dense tensor library are shortened.
\<close>

datatype exn = RuntimeError string | TypeError string | IndexError string

section \<open>The dense tensor library\<close>

text \<open>
  A dense tensor is a shape and its entries in row-major order. The entry type \<open>'a\<close> is
  left open: the matrix product only needs a zero, an addition and a multiplication, and
  no law about them is used anywhere.
\<close>

datatype 'a tensor = Tensor (shape: "nat list") (data: "'a list")

definition ndim :: "'a tensor \<Rightarrow> nat" where
  "ndim t = length (shape t)"

definition wf_tensor :: "'a tensor \<Rightarrow> bool" where
  \<comment> \<open>Every tensor of the library has exactly as many entries as its shape says.\<close>
  "wf_tensor t = (length (data t) = prod_list (shape t))"

fun indices_of :: "nat list \<Rightarrow> nat list list" where
  \<comment> \<open>All positions of a shape, in row-major order.\<close>
  "indices_of [] = [[]]"
| "indices_of (d # ds) = concat (map (\<lambda>i. map ((#) i) (indices_of ds)) [0..<d])"

fun offset :: "nat list \<Rightarrow> nat list \<Rightarrow> nat" where
  \<comment> \<open>Where the entry at a position lies in the row-major data.\<close>
  "offset (d # ds) (i # is) = i * prod_list ds + offset ds is"
| "offset _ _ = 0"

definition entry :: "'a tensor \<Rightarrow> nat list \<Rightarrow> 'a" where
  "entry t idx = data t ! offset (shape t) idx"

definition build :: "nat list \<Rightarrow> (nat list \<Rightarrow> 'a) \<Rightarrow> 'a tensor" where
  \<comment> \<open>The tensor of shape \<open>s\<close> whose entry at position \<open>idx\<close> is \<open>f idx\<close>.\<close>
  "build s f = Tensor s (map f (indices_of s))"

definition valid_index :: "nat list \<Rightarrow> nat list \<Rightarrow> bool" where
  "valid_index s idx = list_all2 (\<lambda>i d. i < d) idx s"

definition wrap_dim :: "nat \<Rightarrow> int \<Rightarrow> exn + nat" where
  \<comment> \<open>A dimension argument of a tensor with \<open>n\<close> dimensions: a negative one counts from
      the end, one outside the range is an IndexError. A tensor with no dimension is
      treated as having one.\<close>
  "wrap_dim n d =
     (let r = int (max n 1)
      in if - r \<le> d \<and> d < r then Inr (nat (if d < 0 then d + r else d))
         else Inl (IndexError ''Dimension out of range''))"

definition swap_dims :: "'b list \<Rightarrow> nat \<Rightarrow> nat \<Rightarrow> 'b list" where
  "swap_dims xs i j = xs[i := xs ! j, j := xs ! i]"

definition torch_size :: "'a tensor \<Rightarrow> nat list" where
  \<comment> \<open>\<^verbatim>\<open>t.size()\<close>\<close>
  "torch_size t = shape t"

definition torch_transpose :: "'a tensor \<Rightarrow> int \<Rightarrow> int \<Rightarrow> exn + 'a tensor" where
  \<comment> \<open>\<^verbatim>\<open>t.transpose(dim0, dim1)\<close>: the two dimensions exchanged.\<close>
  "torch_transpose t dim0 dim1 =
     (case wrap_dim (ndim t) dim0 of
        Inl e \<Rightarrow> Inl e
      | Inr i \<Rightarrow>
          (case wrap_dim (ndim t) dim1 of
             Inl e \<Rightarrow> Inl e
           | Inr j \<Rightarrow>
               if i = j then Inr t
               else Inr (build (swap_dims (shape t) i j) (\<lambda>idx. entry t (swap_dims idx i j)))))"

definition diag_index :: "nat \<Rightarrow> nat \<Rightarrow> nat \<Rightarrow> nat list \<Rightarrow> nat list" where
  \<comment> \<open>The position in the tensor of an entry of its diagonal: the last component of the
      diagonal's position goes to both diagonal dimensions, the others keep their order.\<close>
  "diag_index n i j idx =
     map (\<lambda>p. if p = i \<or> p = j then last idx
               else idx ! (p - (if i < p then 1 else 0) - (if j < p then 1 else 0)))
       [0..<n]"

definition torch_diagonal :: "'a tensor \<Rightarrow> int \<Rightarrow> int \<Rightarrow> exn + 'a tensor" where
  \<comment> \<open>\<^verbatim>\<open>t.diagonal(dim1=.., dim2=..)\<close> with the default offset 0: the two dimensions are
      removed and the diagonal becomes the last dimension.\<close>
  "torch_diagonal t dim1 dim2 =
     (case wrap_dim (ndim t) dim1 of
        Inl e \<Rightarrow> Inl e
      | Inr i \<Rightarrow>
          (case wrap_dim (ndim t) dim2 of
             Inl e \<Rightarrow> Inl e
           | Inr j \<Rightarrow>
               if i = j then Inl (RuntimeError ''diagonal dimensions cannot be identical'')
               else
                 let s = shape t;
                     rest = map ((!) s) (filter (\<lambda>p. p \<noteq> i \<and> p \<noteq> j) [0..<length s])
                 in Inr (build (rest @ [min (s ! i) (s ! j)])
                           (\<lambda>idx. entry t (diag_index (length s) i j idx)))))"

fun broadcast_rev :: "nat list \<Rightarrow> nat list \<Rightarrow> nat list option" where
  "broadcast_rev [] ys = Some ys"
| "broadcast_rev xs [] = Some xs"
| "broadcast_rev (x # xs) (y # ys) =
     (if x = y \<or> y = 1 then map_option ((#) x) (broadcast_rev xs ys)
      else if x = 1 then map_option ((#) y) (broadcast_rev xs ys)
      else None)"

definition broadcast_shapes :: "nat list \<Rightarrow> nat list \<Rightarrow> nat list option" where
  \<comment> \<open>Batch shapes are aligned at the right; two sizes agree when they are equal or one
      of them is 1.\<close>
  "broadcast_shapes a b = map_option rev (broadcast_rev (rev a) (rev b))"

definition broadcast_index :: "nat list \<Rightarrow> nat list \<Rightarrow> nat list" where
  \<comment> \<open>The batch position in an operand of batch shape \<open>s\<close> that a position of the
      broadcast batch shape reads.\<close>
  "broadcast_index s idx =
     map2 (\<lambda>d i. if d = 1 then 0 else i) s (drop (length idx - length s) idx)"

definition dot :: "nat \<Rightarrow> (nat \<Rightarrow> 'a) \<Rightarrow> (nat \<Rightarrow> 'a) \<Rightarrow> 'a::{zero,plus,times}" where
  "dot k f g = foldl (\<lambda>acc c. acc + f c * g c) 0 [0..<k]"

definition as_left_matrix :: "'a tensor \<Rightarrow> 'a tensor" where
  \<comment> \<open>A vector on the left of a product is a matrix of one row.\<close>
  "as_left_matrix a = (if ndim a = 1 then Tensor (1 # shape a) (data a) else a)"

definition as_right_matrix :: "'a tensor \<Rightarrow> 'a tensor" where
  \<comment> \<open>A vector on the right of a product is a matrix of one column.\<close>
  "as_right_matrix b = (if ndim b = 1 then Tensor (shape b @ [1]) (data b) else b)"

definition batch_shape :: "'a tensor \<Rightarrow> nat list" where
  "batch_shape t = butlast (butlast (shape t))"

definition rows :: "'a tensor \<Rightarrow> nat" where
  "rows t = last (butlast (shape t))"

definition cols :: "'a tensor \<Rightarrow> nat" where
  "cols t = last (shape t)"

definition matmul_entry ::
  "'a::{zero,plus,times} tensor \<Rightarrow> 'a tensor \<Rightarrow> nat \<Rightarrow> nat list \<Rightarrow> 'a" where
  \<comment> \<open>The entry of the batched product at a position whose first \<open>nb\<close> components are
      the batch position: row \<open>r\<close> of the left matrix times column \<open>c\<close> of the right one.\<close>
  "matmul_entry a b nb idx =
     (let bi = take nb idx; r = idx ! nb; c = idx ! Suc nb
      in dot (cols a)
           (\<lambda>x. entry a (broadcast_index (batch_shape a) bi @ [r, x]))
           (\<lambda>x. entry b (broadcast_index (batch_shape b) bi @ [x, c])))"

definition torch_matmul :: "'a::{zero,plus,times} tensor \<Rightarrow> 'a tensor \<Rightarrow> exn + 'a tensor" where
  \<comment> \<open>\<^verbatim>\<open>torch.matmul(a, b)\<close>: a vector on the left is a one-row matrix, a vector on the
      right a one-column matrix, and the added dimension is dropped from the result; the
      batch dimensions are broadcast.\<close>
  "torch_matmul a b =
     (if ndim a = 0 \<or> ndim b = 0
      then Inl (RuntimeError ''both arguments to matmul need to be at least 1D'')
      else
        let a' = as_left_matrix a; b' = as_right_matrix b
        in if cols a' \<noteq> rows b' then Inl (RuntimeError ''size mismatch'')
           else
             (case broadcast_shapes (batch_shape a') (batch_shape b') of
                None \<Rightarrow> Inl (RuntimeError ''batch dimensions cannot be broadcast'')
              | Some bs \<Rightarrow>
                  Inr (Tensor
                    (bs @ (if ndim a = 1 then [] else [rows a'])
                        @ (if ndim b = 1 then [] else [cols b']))
                    (map (matmul_entry a' b' (length bs))
                       (indices_of (bs @ [rows a', cols b']))))))"

section \<open>Python objects\<close>

text \<open>
  The adapter class of the file: its only field of its own is \<^verbatim>\<open>self.tensor\<close>.
\<close>

record 'a NonLazyTensor =
  tensor :: "'a tensor"

text \<open>
  The objects the functions of the file can be handed: the constructor and \<^verbatim>\<open>lazify\<close> take
  any object, and an index tuple holds integers, slices, tensors and whatever else the
  caller wrote. \<open>PyLazyTensor c\<close> is an instance of a subclass \<open>c\<close> of \<^verbatim>\<open>LazyTensor\<close> other
  than \<^verbatim>\<open>NonLazyTensor\<close>; \<open>PyObject c\<close> is an instance of any other class \<open>c\<close>.
\<close>

datatype 'a pyobj =
    PyInt int
  | PyBool bool
  | PyNone
  | PyEllipsis
  | PySlice "'a pyobj" "'a pyobj" "'a pyobj"
  | PyList "'a pyobj list"
  | PyTensor (the_tensor: "'a tensor")
  | PyNonLazyTensor "'a NonLazyTensor"
  | PyLazyTensor string
  | PyObject string

fun is_tensor :: "'a pyobj \<Rightarrow> bool" where
  \<comment> \<open>\<^verbatim>\<open>torch.is_tensor(obj)\<close>\<close>
  "is_tensor (PyTensor t) = True"
| "is_tensor _ = False"

fun isinstance_LazyTensor :: "'a pyobj \<Rightarrow> bool" where
  \<comment> \<open>\<^verbatim>\<open>isinstance(obj, LazyTensor)\<close>: \<^verbatim>\<open>NonLazyTensor\<close> is a subclass.\<close>
  "isinstance_LazyTensor (PyNonLazyTensor x) = True"
| "isinstance_LazyTensor (PyLazyTensor c) = True"
| "isinstance_LazyTensor _ = False"

fun isinstance_int :: "'a pyobj \<Rightarrow> bool" where
  \<comment> \<open>\<^verbatim>\<open>isinstance(obj, int)\<close>: in Python \<^verbatim>\<open>bool\<close> is a subclass of \<^verbatim>\<open>int\<close>.\<close>
  "isinstance_int (PyInt i) = True"
| "isinstance_int (PyBool b) = True"
| "isinstance_int _ = False"

fun class_name :: "'a pyobj \<Rightarrow> string" where
  \<comment> \<open>\<^verbatim>\<open>obj.__class__.__name__\<close>\<close>
  "class_name (PyInt i) = ''int''"
| "class_name (PyBool b) = ''bool''"
| "class_name PyNone = ''NoneType''"
| "class_name PyEllipsis = ''ellipsis''"
| "class_name (PySlice a b c) = ''slice''"
| "class_name (PyList xs) = ''list''"
| "class_name (PyTensor t) = ''Tensor''"
| "class_name (PyNonLazyTensor x) = ''NonLazyTensor''"
| "class_name (PyLazyTensor c) = c"
| "class_name (PyObject c) = c"

definition tuple_getitem :: "'b list \<Rightarrow> int \<Rightarrow> exn + 'b" where
  \<comment> \<open>\<^verbatim>\<open>tup[i]\<close> on a Python tuple.\<close>
  "tuple_getitem tup i =
     (let n = int (length tup)
      in if - n \<le> i \<and> i < n then Inr (tup ! nat (if i < 0 then i + n else i))
         else Inl (IndexError ''tuple index out of range''))"

subsection \<open>Indexing of a dense tensor\<close>

text \<open>
  \<^verbatim>\<open>Tensor.__getitem__\<close> is not modelled in full (integers, slices, ellipsis, new axes,
  integer and boolean tensors, lists). The methods that index take it as a parameter
  \<open>getitem\<close> of this type, and what is proved of them holds whatever it does. On success
  it always gives a tensor, and it leaves the tensor it reads as it is.
\<close>

type_synonym 'a getitem = "'a tensor \<Rightarrow> 'a pyobj list \<Rightarrow> exn + 'a tensor"

text \<open>
  One instance, to run the methods on concrete inputs: indexing by integers and full
  slices \<^verbatim>\<open>:\<close> only. Any other kind of index is outside this instance, which then gives
  a TypeError of its own.
\<close>

fun basic_shape :: "nat list \<Rightarrow> 'a pyobj list \<Rightarrow> exn + nat list" where
  "basic_shape s [] = Inr s"
| "basic_shape [] (x # xs) = Inl (IndexError ''too many indices for tensor'')"
| "basic_shape (d # ds) (x # xs) =
     (case x of
        PyInt i \<Rightarrow>
          if - int d \<le> i \<and> i < int d then basic_shape ds xs
          else Inl (IndexError ''index out of range'')
      | PySlice a b c \<Rightarrow>
          if a = PyNone \<and> b = PyNone \<and> c = PyNone
          then (case basic_shape ds xs of Inl e \<Rightarrow> Inl e | Inr s \<Rightarrow> Inr (d # s))
          else Inl (TypeError ''index outside the integer and full-slice instance'')
      | _ \<Rightarrow> Inl (TypeError ''index outside the integer and full-slice instance''))"

fun basic_source :: "nat list \<Rightarrow> 'a pyobj list \<Rightarrow> nat list \<Rightarrow> nat list" where
  "basic_source (d # ds) (PyInt i # xs) idx =
     nat (if i < 0 then i + int d else i) # basic_source ds xs idx"
| "basic_source (d # ds) (x # xs) (j # idx) = j # basic_source ds xs idx"
| "basic_source s xs idx = idx"

definition basic_getitem :: "'a getitem" where
  "basic_getitem t indices =
     (case basic_shape (shape t) indices of
        Inl e \<Rightarrow> Inl e
      | Inr s \<Rightarrow> Inr (build s (\<lambda>idx. entry t (basic_source (shape t) indices idx))))"

section \<open>The class NonLazyTensor\<close>

text \<open>
  A method takes the object \<open>self\<close> and returns its result (or the exception it raises)
  together with the object as the call leaves it.
\<close>

definition LazyTensor_init :: "'a pyobj list \<Rightarrow> exn + unit" where
  \<comment> \<open>Modelled from the spec: the initialiser of the base class \<^verbatim>\<open>LazyTensor\<close>, which this
      file imports and does not define. The spec gives the file no failure handling
      beyond delegating to the numeric library and raising type-check errors on malformed
      input, so the base initialiser completes; what it records of its arguments is read
      by no method of this file.\<close>
  "LazyTensor_init args = Inr ()"

definition NonLazyTensor_init :: "'a pyobj \<Rightarrow> exn + 'a NonLazyTensor" where
  \<comment> \<open>\<^verbatim>\<open>NonLazyTensor(tsr)\<close>\<close>
  "NonLazyTensor_init tsr =
     (if \<not> is_tensor tsr
      then Inl (RuntimeError (''NonLazyTensor must take a torch.Tensor; got '' @ class_name tsr))
      else
        (case LazyTensor_init [tsr] of
           Inl e \<Rightarrow> Inl e
         | Inr u \<Rightarrow> Inr \<lparr>tensor = the_tensor tsr\<rparr>))"

definition NonLazyTensor_get_indices ::
  "'a getitem \<Rightarrow> 'a NonLazyTensor \<Rightarrow> 'a pyobj \<Rightarrow> 'a pyobj \<Rightarrow> 'a pyobj list
     \<Rightarrow> (exn + 'a tensor) \<times> 'a NonLazyTensor" where
  \<comment> \<open>\<^verbatim>\<open>_get_indices(self, left_indices, right_indices, *batch_indices)\<close>\<close>
  "NonLazyTensor_get_indices getitem self left_indices right_indices batch_indices =
     (getitem (tensor self) (batch_indices @ [left_indices, right_indices]), self)"

definition NonLazyTensor_getitem ::
  "'a getitem \<Rightarrow> 'a NonLazyTensor \<Rightarrow> 'a pyobj list \<Rightarrow> (exn + 'a pyobj) \<times> 'a NonLazyTensor" where
  \<comment> \<open>\<^verbatim>\<open>_getitem(self, *indices)\<close>\<close>
  "NonLazyTensor_getitem getitem self indices =
     (case getitem (tensor self) indices of
        Inl e \<Rightarrow> (Inl e, self)
      | Inr res \<Rightarrow>
          (case tuple_getitem indices (- 2) of
             Inl e \<Rightarrow> (Inl e, self)
           | Inr row_index \<Rightarrow>
               (case tuple_getitem indices (- 1) of
                  Inl e \<Rightarrow> (Inl e, self)
                | Inr col_index \<Rightarrow>
                    if isinstance_int row_index \<or> is_tensor row_index
                       \<or> isinstance_int col_index \<or> is_tensor col_index
                    then (Inr (PyTensor res), self)
                    else
                      (case NonLazyTensor_init (PyTensor res) of
                         Inl e \<Rightarrow> (Inl e, self)
                       | Inr new \<Rightarrow> (Inr (PyNonLazyTensor new), self)))))"

definition NonLazyTensor_matmul ::
  "'a::{zero,plus,times} NonLazyTensor \<Rightarrow> 'a tensor \<Rightarrow> (exn + 'a tensor) \<times> 'a NonLazyTensor" where
  \<comment> \<open>\<^verbatim>\<open>_matmul(self, rhs)\<close>\<close>
  "NonLazyTensor_matmul self rhs = (torch_matmul (tensor self) rhs, self)"

definition NonLazyTensor_quad_form_derivative ::
  "'a::{zero,plus,times} NonLazyTensor \<Rightarrow> 'a tensor \<Rightarrow> 'a tensor
     \<Rightarrow> (exn + 'a tensor list) \<times> 'a NonLazyTensor" where
  \<comment> \<open>\<^verbatim>\<open>_quad_form_derivative(self, left_vecs, right_vecs)\<close>; the tuple it returns is a list.\<close>
  "NonLazyTensor_quad_form_derivative self left_vecs right_vecs =
     (case torch_transpose right_vecs (- 1) (- 2) of
        Inl e \<Rightarrow> (Inl e, self)
      | Inr rt \<Rightarrow>
          (case torch_matmul left_vecs rt of
             Inl e \<Rightarrow> (Inl e, self)
           | Inr res \<Rightarrow> (Inr [res], self)))"

definition NonLazyTensor_size :: "'a NonLazyTensor \<Rightarrow> nat list \<times> 'a NonLazyTensor" where
  \<comment> \<open>\<^verbatim>\<open>_size(self)\<close>\<close>
  "NonLazyTensor_size self = (torch_size (tensor self), self)"

definition NonLazyTensor_transpose_nonbatch ::
  "'a NonLazyTensor \<Rightarrow> (exn + 'a NonLazyTensor) \<times> 'a NonLazyTensor" where
  \<comment> \<open>\<^verbatim>\<open>_transpose_nonbatch(self)\<close>\<close>
  "NonLazyTensor_transpose_nonbatch self =
     (case torch_transpose (tensor self) (- 1) (- 2) of
        Inl e \<Rightarrow> (Inl e, self)
      | Inr tt \<Rightarrow> (NonLazyTensor_init (PyTensor tt), self))"

definition NonLazyTensor_t_matmul ::
  "'a::{zero,plus,times} NonLazyTensor \<Rightarrow> 'a tensor \<Rightarrow> (exn + 'a tensor) \<times> 'a NonLazyTensor" where
  \<comment> \<open>\<^verbatim>\<open>_t_matmul(self, rhs)\<close>\<close>
  "NonLazyTensor_t_matmul self rhs =
     (case torch_transpose (tensor self) (- 1) (- 2) of
        Inl e \<Rightarrow> (Inl e, self)
      | Inr tt \<Rightarrow> (torch_matmul tt rhs, self))"

definition NonLazyTensor_diag :: "'a NonLazyTensor \<Rightarrow> (exn + 'a tensor) \<times> 'a NonLazyTensor" where
  \<comment> \<open>\<^verbatim>\<open>diag(self)\<close>\<close>
  "NonLazyTensor_diag self = (torch_diagonal (tensor self) (- 2) (- 1), self)"

definition NonLazyTensor_evaluate :: "'a NonLazyTensor \<Rightarrow> 'a tensor \<times> 'a NonLazyTensor" where
  \<comment> \<open>\<^verbatim>\<open>evaluate(self)\<close>\<close>
  "NonLazyTensor_evaluate self = (tensor self, self)"

section \<open>The function lazify\<close>

definition lazify :: "'a pyobj \<Rightarrow> exn + 'a pyobj" where
  "lazify obj =
     (if is_tensor obj then
        (case NonLazyTensor_init obj of
           Inl e \<Rightarrow> Inl e
         | Inr new \<Rightarrow> Inr (PyNonLazyTensor new))
      else if isinstance_LazyTensor obj then Inr obj
      else Inl (TypeError (''object of class '' @ class_name obj
                            @ '' cannot be made into a LazyTensor'')))"

section \<open>Notions used in the statements\<close>

definition then_call :: "exn + 'b \<Rightarrow> ('b \<Rightarrow> exn + 'c) \<Rightarrow> exn + 'c" where
  \<comment> \<open>One call made on the result of another, as Python evaluates it: an exception of
      the first call leaves the whole expression.\<close>
  "then_call r f = (case r of Inl e \<Rightarrow> Inl e | Inr v \<Rightarrow> f v)"

fun entries_of :: "'a pyobj \<Rightarrow> 'a tensor option" where
  \<comment> \<open>The dense entries behind a result of indexing: a tensor as it is, a
      \<^verbatim>\<open>NonLazyTensor\<close> by its \<^verbatim>\<open>evaluate()\<close>.\<close>
  "entries_of (PyTensor t) = Some t"
| "entries_of (PyNonLazyTensor x) = Some (fst (NonLazyTensor_evaluate x))"
| "entries_of _ = None"

definition raw_index :: "'a pyobj \<Rightarrow> bool" where
  \<comment> \<open>An index that is an int or a tensor.\<close>
  "raw_index ix = (isinstance_int ix \<or> is_tensor ix)"

section \<open>Example values\<close>

definition M23 :: "int tensor" where
  \<comment> \<open>The matrix with rows 1 2 3 and 4 5 6.\<close>
  "M23 = Tensor [2, 3] [1, 2, 3, 4, 5, 6]"

definition full_slice :: "int pyobj" where
  \<comment> \<open>The slice \<^verbatim>\<open>:\<close>\<close>
  "full_slice = PySlice PyNone PyNone PyNone"

section \<open>Row-major positions\<close>

lemma length_indices_of: "length (indices_of s) = prod_list s"
proof (induction s)
  case Nil show ?case by simp
next
  case (Cons d ds)
  have "length (concat (map (\<lambda>i. map ((#) i) (indices_of ds)) [0..<d])) = d * prod_list ds"
    by (induction d) (simp_all add: Cons.IH)
  then show ?case by simp
qed

lemma set_indices_of_all2: "idx \<in> set (indices_of s) \<longleftrightarrow> list_all2 (\<lambda>i d. i < d) idx s"
proof (induction s arbitrary: idx)
  case Nil show ?case by auto
next
  case (Cons d ds)
  show ?case
  proof (cases idx)
    case Nil then show ?thesis by auto
  next
    case (Cons i r)
    have "i # r \<in> set (indices_of (d # ds)) \<longleftrightarrow> i < d \<and> r \<in> set (indices_of ds)"
      by auto
    then show ?thesis using Cons Cons.IH by simp
  qed
qed

lemma set_indices_of: "idx \<in> set (indices_of s) \<longleftrightarrow> valid_index s idx"
  by (simp add: set_indices_of_all2 valid_index_def)

lemma concat_upt_blocks:
  assumes "\<And>i. i < d \<Longrightarrow> f i = [i * n..<i * n + n]"
  shows "concat (map f [0..<d]) = [0..<d * n]"
  using assms
proof (induction d)
  case 0 show ?case by simp
next
  case (Suc d)
  have "[0..<Suc d * n] = [0..<d * n] @ [d * n..<d * n + n]"
    by (metis add.commute le_add1 mult_Suc upt_add_eq_append zero_le add.left_neutral)
  with Suc show ?case by simp
qed

lemma map_add_upt: "map (\<lambda>x. c + x) [0..<n] = [c..<c + n]"
  by (induction n) simp_all

lemma offsets_indices_of: "map (offset s) (indices_of s) = [0..<prod_list s]"
proof (induction s)
  case Nil show ?case by simp
next
  case (Cons d ds)
  have "map (offset (d # ds)) (indices_of (d # ds)) =
        concat (map (\<lambda>i. map (\<lambda>x. i * prod_list ds + x) (map (offset ds) (indices_of ds))) [0..<d])"
    by (simp add: map_concat comp_def)
  also have "\<dots> = concat (map (\<lambda>i. [i * prod_list ds..<i * prod_list ds + prod_list ds]) [0..<d])"
    by (simp add: Cons.IH map_add_upt)
  also have "\<dots> = [0..<d * prod_list ds]"
    by (rule concat_upt_blocks) simp
  finally show ?case by simp
qed

lemma offset_less: "valid_index s idx \<Longrightarrow> offset s idx < prod_list s"
proof (induction s arbitrary: idx)
  case Nil then show ?case by (simp add: valid_index_def)
next
  case (Cons d ds)
  then obtain i r where idx: "idx = i # r" and i: "i < d" and r: "valid_index ds r"
    by (cases idx) (auto simp: valid_index_def)
  have "offset ds r < prod_list ds" using Cons.IH r by simp
  then have "i * prod_list ds + offset ds r < Suc i * prod_list ds" by simp
  also have "\<dots> \<le> d * prod_list ds" using i by (simp add: Suc_leI mult_le_mono1 del: mult_Suc)
  finally show ?case by (simp add: idx)
qed

lemma indices_of_nth_offset:
  assumes "valid_index s idx"
  shows "indices_of s ! offset s idx = idx"
proof -
  from assms have "idx \<in> set (indices_of s)" by (simp add: set_indices_of)
  then obtain k where k: "k < length (indices_of s)" and nth: "indices_of s ! k = idx"
    by (auto simp: in_set_conv_nth)
  have "offset s idx = map (offset s) (indices_of s) ! k" using k nth by simp
  also have "\<dots> = k" using k by (simp add: offsets_indices_of length_indices_of)
  finally show ?thesis using nth by simp
qed

lemma entry_build:
  "valid_index s idx \<Longrightarrow> entry (build s f) idx = f idx"
  by (simp add: entry_def build_def offset_less length_indices_of indices_of_nth_offset)

lemma build_entry:
  assumes "wf_tensor t"
  shows "build (shape t) (entry t) = t"
proof -
  have "map (entry t) (indices_of (shape t)) = map ((!) (data t)) (map (offset (shape t)) (indices_of (shape t)))"
    by (simp add: entry_def comp_def)
  also have "\<dots> = data t"
    using assms map_nth[of "data t"] by (simp add: offsets_indices_of wf_tensor_def)
  finally show ?thesis by (cases t) (simp add: build_def)
qed

lemma wf_build: "wf_tensor (build s f)"
  by (simp add: wf_tensor_def build_def length_indices_of)

section \<open>Transpose and diagonal of the last two dimensions\<close>

lemma wrap_dim_last: "2 \<le> n \<Longrightarrow> wrap_dim n (- 1) = Inr (n - 1)"
  by (auto simp: wrap_dim_def Let_def max_def)

lemma wrap_dim_last2: "2 \<le> n \<Longrightarrow> wrap_dim n (- 2) = Inr (n - 2)"
  by (auto simp: wrap_dim_def Let_def max_def)

lemma wrap_dim_last2_fails: "n < 2 \<Longrightarrow> wrap_dim n (- 2) = Inl (IndexError ''Dimension out of range'')"
  by (auto simp: wrap_dim_def Let_def max_def)

lemma swap_dims_twice:
  "i < length xs \<Longrightarrow> j < length xs \<Longrightarrow> swap_dims (swap_dims xs i j) i j = xs"
  by (auto simp: swap_dims_def list_eq_iff_nth_eq nth_list_update)

lemma length_swap_dims: "length (swap_dims xs i j) = length xs"
  by (simp add: swap_dims_def)

lemma valid_index_swap:
  assumes "valid_index s idx" "i < length s" "j < length s"
  shows "valid_index (swap_dims s i j) (swap_dims idx i j)"
  using assms
  by (auto simp: valid_index_def swap_dims_def list_all2_conv_all_nth nth_list_update)

lemma build_cong:
  "(\<And>idx. valid_index s idx \<Longrightarrow> f idx = g idx) \<Longrightarrow> build s f = build s g"
  by (simp add: build_def set_indices_of)

lemma valid_index_length: "valid_index s idx \<Longrightarrow> length idx = length s"
  by (simp add: valid_index_def list_all2_lengthD)

lemma swap_build_twice:
  assumes wf: "wf_tensor t" and i: "i < ndim t" and j: "j < ndim t"
  shows "build (swap_dims (swap_dims (shape t) i j) i j)
           (\<lambda>idx. entry (build (swap_dims (shape t) i j) (\<lambda>idx. entry t (swap_dims idx i j)))
                     (swap_dims idx i j)) = t"
proof -
  let ?s = "shape t"
  let ?t' = "build (swap_dims ?s i j) (\<lambda>idx. entry t (swap_dims idx i j))"
  have s2: "swap_dims (swap_dims ?s i j) i j = ?s"
    using i j by (simp add: swap_dims_twice ndim_def)
  have "build ?s (\<lambda>idx. entry ?t' (swap_dims idx i j)) = build ?s (entry t)"
  proof (rule build_cong)
    fix idx assume v: "valid_index ?s idx"
    then have len: "length idx = length ?s" by (rule valid_index_length)
    have "valid_index (swap_dims ?s i j) (swap_dims idx i j)"
      using v i j by (simp add: valid_index_swap ndim_def)
    then have "entry ?t' (swap_dims idx i j) = entry t (swap_dims (swap_dims idx i j) i j)"
      by (rule entry_build)
    also have "swap_dims (swap_dims idx i j) i j = idx"
      using i j len by (simp add: swap_dims_twice ndim_def)
    finally show "entry ?t' (swap_dims idx i j) = entry t idx" .
  qed
  then show ?thesis using wf by (simp add: s2 build_entry)
qed

lemma torch_transpose_last_two:
  "2 \<le> ndim t \<Longrightarrow>
   torch_transpose t (- 1) (- 2) =
     Inr (build (swap_dims (shape t) (ndim t - 1) (ndim t - 2))
            (\<lambda>idx. entry t (swap_dims idx (ndim t - 1) (ndim t - 2))))"
  by (auto simp: torch_transpose_def wrap_dim_last wrap_dim_last2)

lemma torch_transpose_fails:
  "ndim t < 2 \<Longrightarrow> torch_transpose t (- 1) (- 2) = Inl (IndexError ''Dimension out of range'')"
  by (auto simp: torch_transpose_def wrap_dim_last2_fails wrap_dim_def Let_def max_def split: sum.splits)

lemma ndim_build: "ndim (build s f) = length s"
  by (simp add: ndim_def build_def)

lemma shape_build: "shape (build s f) = s"
  by (simp add: build_def)

lemma torch_transpose_involution:
  assumes wf: "wf_tensor t" and n: "2 \<le> ndim t"
  shows "\<exists>t'. torch_transpose t (- 1) (- 2) = Inr t' \<and> torch_transpose t' (- 1) (- 2) = Inr t"
proof -
  let ?i = "ndim t - 1" and ?j = "ndim t - 2"
  let ?t' = "build (swap_dims (shape t) ?i ?j) (\<lambda>idx. entry t (swap_dims idx ?i ?j))"
  have 1: "torch_transpose t (- 1) (- 2) = Inr ?t'"
    using n by (rule torch_transpose_last_two)
  have n': "ndim ?t' = ndim t" by (simp add: ndim_def shape_build length_swap_dims)
  have "torch_transpose ?t' (- 1) (- 2) =
        Inr (build (swap_dims (shape ?t') ?i ?j) (\<lambda>idx. entry ?t' (swap_dims idx ?i ?j)))"
    using torch_transpose_last_two[of ?t'] n by (simp only: n')
  also have "\<dots> = Inr t"
    using swap_build_twice[OF wf, of ?i ?j] n by (simp add: shape_build)
  finally show ?thesis using 1 by blast
qed

lemma torch_transpose_shape:
  assumes "shape t = bs @ [m, n]"
  shows "\<exists>t'. torch_transpose t (- 1) (- 2) = Inr t' \<and> shape t' = bs @ [n, m] \<and>
           (\<forall>b r c. valid_index (bs @ [n, m]) (b @ [c, r]) \<longrightarrow> length b = length bs \<longrightarrow>
               entry t' (b @ [c, r]) = entry t (b @ [r, c]))"
proof -
  have nd: "ndim t = length bs + 2" using assms by (simp add: ndim_def)
  have i1: "ndim t - 1 = Suc (length bs)" and i2: "ndim t - 2 = length bs"
    using nd by simp_all
  have sw: "swap_dims (xs @ [x, y]) (ndim t - 1) (ndim t - 2) = xs @ [y, x]"
    if "length xs = length bs" for xs :: "nat list" and x y
    unfolding i1 i2 using that by (simp add: swap_dims_def nth_append list_update_append)
  let ?t' = "build (swap_dims (shape t) (ndim t - 1) (ndim t - 2))
            (\<lambda>idx. entry t (swap_dims idx (ndim t - 1) (ndim t - 2)))"
  have 1: "torch_transpose t (- 1) (- 2) = Inr ?t'"
    by (rule torch_transpose_last_two) (simp add: nd)
  have sh: "swap_dims (shape t) (ndim t - 1) (ndim t - 2) = bs @ [n, m]"
    using sw[of bs m n] by (simp only: assms)
  have 2: "shape ?t' = bs @ [n, m]" by (simp only: shape_build sh)
  have 3: "entry ?t' (b @ [c, r]) = entry t (b @ [r, c])"
    if "valid_index (bs @ [n, m]) (b @ [c, r])" "length b = length bs" for b r c
    using that by (simp only: sh entry_build sw)
  show ?thesis using 1 2 3 by blast
qed

lemma diag_rest:
  "map ((!) (bs @ [m, n])) (filter (\<lambda>p. p \<noteq> length bs \<and> p \<noteq> Suc (length bs)) [0..<length bs + 2]) = bs"
proof -
  have "filter (\<lambda>p. p \<noteq> length bs \<and> p \<noteq> Suc (length bs)) [0..<length bs + 2] = [0..<length bs]"
    by (simp add: filter_id_conv)
  moreover have "map ((!) (bs @ [m, n])) [0..<length bs] = map ((!) bs) [0..<length bs]"
    by (rule map_cong) (simp_all add: nth_append)
  ultimately show ?thesis by (simp only: map_nth)
qed

lemma diag_index_last_two:
  "length b = k \<Longrightarrow> diag_index (k + 2) k (Suc k) (b @ [i]) = b @ [i, i]"
  by (auto simp: diag_index_def list_eq_iff_nth_eq nth_append less_Suc_eq)

lemma torch_diagonal_last_two:
  assumes "shape t = bs @ [m, n]"
  shows "torch_diagonal t (- 2) (- 1) =
           Inr (build (bs @ [min m n]) (\<lambda>idx. entry t (diag_index (length bs + 2) (length bs) (Suc (length bs)) idx)))"
proof -
  have nd: "ndim t = length bs + 2" using assms by (simp add: ndim_def)
  have w1: "wrap_dim (ndim t) (- 2) = Inr (length bs)" using wrap_dim_last2[of "ndim t"] nd by simp
  have w2: "wrap_dim (ndim t) (- 1) = Inr (Suc (length bs))" using wrap_dim_last[of "ndim t"] nd by simp
  show ?thesis
    using diag_rest[of bs m n]
    by (simp add: torch_diagonal_def w1 w2 assms Let_def nth_append)
qed

lemma torch_diagonal_fails:
  "ndim t < 2 \<Longrightarrow> \<exists>e. torch_diagonal t (- 2) (- 1) = Inl e"
  by (simp add: torch_diagonal_def wrap_dim_last2_fails)

lemma valid_index_snoc:
  "valid_index bs b \<Longrightarrow> i < k \<Longrightarrow> valid_index (bs @ [k]) (b @ [i])"
  by (simp add: valid_index_def list_all2_appendI)

lemma torch_diagonal_entries:
  assumes "shape t = bs @ [m, n]"
  shows "\<exists>d. torch_diagonal t (- 2) (- 1) = Inr d \<and> shape d = bs @ [min m n] \<and>
           (\<forall>b i. valid_index bs b \<and> i < min m n \<longrightarrow> entry d (b @ [i]) = entry t (b @ [i, i]))"
proof -
  let ?d = "build (bs @ [min m n])
              (\<lambda>idx. entry t (diag_index (length bs + 2) (length bs) (Suc (length bs)) idx))"
  have 1: "torch_diagonal t (- 2) (- 1) = Inr ?d"
    using assms by (rule torch_diagonal_last_two)
  have 2: "shape ?d = bs @ [min m n]" by (rule shape_build)
  have 3: "entry ?d (b @ [i]) = entry t (b @ [i, i])" if "valid_index bs b" "i < min m n" for b i
  proof -
    have "valid_index (bs @ [min m n]) (b @ [i])" using that by (rule valid_index_snoc)
    then have "entry ?d (b @ [i]) =
               entry t (diag_index (length bs + 2) (length bs) (Suc (length bs)) (b @ [i]))"
      by (rule entry_build)
    moreover have "length b = length bs" using that(1) by (rule valid_index_length)
    ultimately show ?thesis using diag_index_last_two[of b "length bs" i] by simp
  qed
  show ?thesis using 1 2 3 by blast
qed

section \<open>The library keeps tensors well-formed\<close>

lemma torch_transpose_wf:
  "wf_tensor t \<Longrightarrow> torch_transpose t dim0 dim1 = Inr t' \<Longrightarrow> wf_tensor t'"
  by (auto simp: torch_transpose_def wf_build split: sum.splits if_splits)

lemma torch_diagonal_wf: "torch_diagonal t dim1 dim2 = Inr d \<Longrightarrow> wf_tensor d"
  by (auto simp: torch_diagonal_def Let_def wf_build split: sum.splits if_splits)

lemma rows_as_left_matrix: "ndim a = 1 \<Longrightarrow> rows (as_left_matrix a) = 1"
  by (cases "shape a") (auto simp: rows_def as_left_matrix_def ndim_def)

lemma cols_as_right_matrix: "ndim b = 1 \<Longrightarrow> cols (as_right_matrix b) = 1"
  by (simp add: cols_def as_right_matrix_def)

lemma torch_matmul_wf:
  assumes "torch_matmul a b = Inr c"
  shows "wf_tensor c"
  using assms
  by (auto simp: torch_matmul_def Let_def wf_tensor_def length_indices_of
        rows_as_left_matrix cols_as_right_matrix split: if_splits option.splits)

lemma basic_getitem_wf: "basic_getitem t indices = Inr r \<Longrightarrow> wf_tensor r"
  by (auto simp: basic_getitem_def wf_build split: sum.splits)

section \<open>Construction\<close>

lemma NonLazyTensor_init_tensor:
  "NonLazyTensor_init (PyTensor t) = Inr \<lparr>tensor = t\<rparr>"
  by (simp add: NonLazyTensor_init_def LazyTensor_init_def)

lemma NonLazyTensor_init_other:
  "\<not> is_tensor obj \<Longrightarrow>
   NonLazyTensor_init obj =
     Inl (RuntimeError (''NonLazyTensor must take a torch.Tensor; got '' @ class_name obj))"
  by (simp add: NonLazyTensor_init_def)

lemma is_tensor_iff: "is_tensor obj \<longleftrightarrow> (\<exists>t. obj = PyTensor t)"
  by (cases obj) simp_all

lemma t_matmul_needs_matrix:
  "fst (NonLazyTensor_t_matmul A rhs) = Inr r \<Longrightarrow> 2 \<le> ndim (tensor A)"
  using torch_transpose_fails[of "tensor A"]
  by (cases "2 \<le> ndim (tensor A)") (auto simp: NonLazyTensor_t_matmul_def)

section \<open>Indexing a tuple from its end\<close>

lemma tuple_getitem_last2:
  "2 \<le> length xs \<Longrightarrow> tuple_getitem xs (- 2) = Inr (xs ! (length xs - 2))"
  by (auto simp: tuple_getitem_def Let_def nat_diff_distrib' intro!: arg_cong[where f="(!) xs"])

lemma tuple_getitem_last:
  "2 \<le> length xs \<Longrightarrow> tuple_getitem xs (- 1) = Inr (xs ! (length xs - 1))"
  by (auto simp: tuple_getitem_def Let_def nat_diff_distrib' intro!: arg_cong[where f="(!) xs"])

lemma tuple_getitem_short:
  "length xs < 2 \<Longrightarrow> tuple_getitem xs (- 2) = Inl (IndexError ''tuple index out of range'')"
  by (auto simp: tuple_getitem_def Let_def)

lemma getitem_result:
  "2 \<le> length indices \<Longrightarrow>
   fst (NonLazyTensor_getitem getitem self indices) =
     then_call (getitem (tensor self) indices)
       (\<lambda>res. if raw_index (indices ! (length indices - 2)) \<or> raw_index (indices ! (length indices - 1))
              then Inr (PyTensor res)
              else Inr (PyNonLazyTensor \<lparr>tensor = res\<rparr>))"
  by (auto simp: NonLazyTensor_getitem_def then_call_def raw_index_def tuple_getitem_last2
        tuple_getitem_last NonLazyTensor_init_tensor split: sum.splits)

lemma getitem_short:
  "length indices < 2 \<Longrightarrow>
   fst (NonLazyTensor_getitem getitem self indices) =
     then_call (getitem (tensor self) indices) (\<lambda>res. Inl (IndexError ''tuple index out of range''))"
  by (auto simp: NonLazyTensor_getitem_def then_call_def tuple_getitem_short split: sum.splits)

section \<open>The library on the example values\<close>

lemma M23_matmul: "torch_matmul M23 (Tensor [3, 2] [1, 0, 0, 1, 1, 1]) = Inr (Tensor [2, 2] [4, 5, 10, 11])"
  by code_simp

lemma M23_transpose: "torch_transpose M23 (- 1) (- 2) = Inr (Tensor [3, 2] [1, 4, 2, 5, 3, 6])"
  by code_simp

lemma M23_t_matmul: "torch_matmul (Tensor [3, 2] [1, 4, 2, 5, 3, 6]) (Tensor [2] [1, 1 :: int]) = Inr (Tensor [3] [5, 7, 9])"
  by code_simp

lemma basic_getitem_row: "basic_getitem M23 [PyInt 0, full_slice] = Inr (Tensor [3] [1, 2, 3])"
  by code_simp


lemma basic_getitem_column: "basic_getitem M23 [full_slice, PyInt (- 1)] = Inr (Tensor [2] [3, 6])"
  by code_simp

lemma basic_getitem_out_of_range: "basic_getitem M23 [PyInt 1, PyInt 5] = Inl (IndexError ''index out of range'')"
  by code_simp

lemma M23_diagonal: "torch_diagonal M23 (- 2) (- 1) = Inr (Tensor [2] [1, 5])"
  by code_simp

lemma M32_transpose: "torch_transpose (Tensor [3, 2] [1, 2, 3, 4, 5, 6 :: int]) (- 1) (- 2) = Inr (Tensor [2, 3] [1, 3, 5, 2, 4, 6])"
  by code_simp

lemma identity_matmul: "torch_matmul (Tensor [2, 2] [1, 0, 0, 1 :: int]) (Tensor [2, 3] [1, 3, 5, 2, 4, 6]) = Inr (Tensor [2, 3] [1, 3, 5, 2, 4, 6])"
  by code_simp


lemma M23_is_matrix: "wf_tensor M23 \<and> 2 \<le> ndim M23"
  by code_simp

lemma M23_diagonal_entries: "entry M23 [0, 0] = 1" "entry M23 [1, 1] = 5"
  by code_simp+

lemma basic_getitem_first_only: "basic_getitem M23 [PyInt 0] = Inr (Tensor [3] [1, 2, 3])"
  by code_simp

lemma basic_getitem_one_slice: "basic_getitem M23 [full_slice] = Inr M23"
  by code_simp

section \<open>The claims\<close>

text \<open>
  C1. \<^verbatim>\<open>_matmul(rhs)\<close> returns exactly \<^verbatim>\<open>torch.matmul(T, rhs)\<close> and \<^verbatim>\<open>_t_matmul(rhs)\<close> returns
  exactly \<^verbatim>\<open>torch.matmul(T.transpose(-1, -2), rhs)\<close>, for every wrapped tensor \<open>T\<close> and every
  right-hand side: the same result when the library call returns, the same exception when
  it raises. Nothing is computed besides.
\<close>

theorem matmul_delegates:
  "fst (NonLazyTensor_matmul self rhs) = torch_matmul (tensor self) rhs \<and>
   fst (NonLazyTensor_t_matmul self rhs) =
     then_call (torch_transpose (tensor self) (- 1) (- 2)) (\<lambda>tt. torch_matmul tt rhs)"
  by (simp add: NonLazyTensor_matmul_def NonLazyTensor_t_matmul_def then_call_def split: sum.splits)

theorem matmul_delegates_witness:
  "fst (NonLazyTensor_matmul \<lparr>tensor = M23\<rparr> (Tensor [3, 2] [1, 0, 0, 1, 1, 1])) = Inr (Tensor [2, 2] [4, 5, 10, 11]) \<and>
   fst (NonLazyTensor_t_matmul \<lparr>tensor = M23\<rparr> (Tensor [2] [1, 1])) = Inr (Tensor [3] [5, 7, 9])"
  using matmul_delegates[of "\<lparr>tensor = M23\<rparr>" "Tensor [3, 2] [1, 0, 0, 1, 1, 1]"]
        matmul_delegates[of "\<lparr>tensor = M23\<rparr>" "Tensor [2] [1, 1]"]
  by (simp add: M23_matmul M23_transpose M23_t_matmul then_call_def)

text \<open>
  C2. \<^verbatim>\<open>lazify\<close> has three behaviours. A tensor is wrapped in a new \<^verbatim>\<open>NonLazyTensor\<close>, whose
  construction succeeds; an object that is not a tensor and is a \<^verbatim>\<open>LazyTensor\<close> is returned as
  it is; any other object raises a TypeError that names its class. It raises if and only
  if the object is neither a tensor nor a \<^verbatim>\<open>LazyTensor\<close>.
\<close>

theorem lazify_three_branches:
  "(is_tensor obj \<longrightarrow>
      (\<exists>new. NonLazyTensor_init obj = Inr new \<and> lazify obj = Inr (PyNonLazyTensor new))) \<and>
   (\<not> is_tensor obj \<and> isinstance_LazyTensor obj \<longrightarrow> lazify obj = Inr obj) \<and>
   (\<not> is_tensor obj \<and> \<not> isinstance_LazyTensor obj \<longrightarrow>
      lazify obj = Inl (TypeError (''object of class '' @ class_name obj
                                    @ '' cannot be made into a LazyTensor''))) \<and>
   ((\<exists>e. lazify obj = Inl e) \<longleftrightarrow> \<not> is_tensor obj \<and> \<not> isinstance_LazyTensor obj)"
  by (auto simp: lazify_def is_tensor_iff NonLazyTensor_init_tensor)

theorem lazify_three_branches_witness:
  "lazify (PyTensor M23) = Inr (PyNonLazyTensor \<lparr>tensor = M23\<rparr>) \<and>
   lazify (PyLazyTensor ''DiagLazyTensor'' :: int pyobj) = Inr (PyLazyTensor ''DiagLazyTensor'') \<and>
   lazify (PyNonLazyTensor \<lparr>tensor = M23\<rparr>) = Inr (PyNonLazyTensor \<lparr>tensor = M23\<rparr>) \<and>
   lazify (PyList [PyInt 1, PyInt 2] :: int pyobj) =
     Inl (TypeError ''object of class list cannot be made into a LazyTensor'')"
  using lazify_three_branches[of "PyTensor M23"]
        lazify_three_branches[of "PyLazyTensor ''DiagLazyTensor'' :: int pyobj"]
        lazify_three_branches[of "PyNonLazyTensor \<lparr>tensor = M23\<rparr>"]
        lazify_three_branches[of "PyList [PyInt 1, PyInt 2] :: int pyobj"]
  by (simp add: NonLazyTensor_init_tensor)

text \<open>
  C3. The constructor raises if and only if its argument is not a tensor. The exception
  is the RuntimeError whose message names the class of the argument; for a tensor the
  construction succeeds and the new object's field \<^verbatim>\<open>tensor\<close> is that tensor.
\<close>

theorem constructor_raises_iff_not_tensor:
  "((\<exists>e. NonLazyTensor_init obj = Inl e) \<longleftrightarrow> \<not> is_tensor obj) \<and>
   (\<not> is_tensor obj \<longrightarrow>
      NonLazyTensor_init obj =
        Inl (RuntimeError (''NonLazyTensor must take a torch.Tensor; got '' @ class_name obj))) \<and>
   (is_tensor obj \<longrightarrow>
      (\<exists>new. NonLazyTensor_init obj = Inr new \<and> PyTensor (tensor new) = obj))"
  by (auto simp: is_tensor_iff NonLazyTensor_init_tensor NonLazyTensor_init_other)

theorem constructor_raises_iff_not_tensor_witness:
  "NonLazyTensor_init (PyInt 3 :: int pyobj) =
     Inl (RuntimeError ''NonLazyTensor must take a torch.Tensor; got int'') \<and>
   NonLazyTensor_init (PyNone :: int pyobj) =
     Inl (RuntimeError ''NonLazyTensor must take a torch.Tensor; got NoneType'') \<and>
   (\<exists>new. NonLazyTensor_init (PyTensor M23) = Inr new \<and> tensor new = M23)"
  using constructor_raises_iff_not_tensor[of "PyInt 3 :: int pyobj"]
        constructor_raises_iff_not_tensor[of "PyNone :: int pyobj"]
        constructor_raises_iff_not_tensor[of "PyTensor M23"]
  by auto

text \<open>
  C4. \<^verbatim>\<open>_get_indices(left_indices, right_indices, *batch_indices)\<close> returns
  \<^verbatim>\<open>T[(*batch_indices, left_indices, right_indices)]\<close>. For an index tuple of at least two
  entries, \<^verbatim>\<open>_getitem(*indices)\<close> returns whenever \<^verbatim>\<open>T[indices]\<close> does, what it returns, a tensor
  or a \<^verbatim>\<open>NonLazyTensor\<close>, has the entries of \<^verbatim>\<open>T[indices]\<close>, and it raises what \<^verbatim>\<open>T[indices]\<close>
  raises. For a shorter tuple \<^verbatim>\<open>_getitem\<close> returns nothing: once \<^verbatim>\<open>T[indices]\<close> has returned,
  reading \<^verbatim>\<open>indices[-2]\<close> raises an IndexError. This holds for any behaviour of the library's
  indexing.
\<close>

theorem indexing_delegates:
  "fst (NonLazyTensor_get_indices getitem self left_indices right_indices batch_indices) =
     getitem (tensor self) (batch_indices @ [left_indices, right_indices]) \<and>
   (\<forall>v. fst (NonLazyTensor_getitem getitem self indices) = Inr v \<longrightarrow>
      (\<exists>res. getitem (tensor self) indices = Inr res \<and> entries_of v = Some res)) \<and>
   (2 \<le> length indices \<longrightarrow>
      (\<forall>res. getitem (tensor self) indices = Inr res \<longrightarrow>
         (\<exists>v. fst (NonLazyTensor_getitem getitem self indices) = Inr v \<and> entries_of v = Some res)) \<and>
      (\<forall>e. getitem (tensor self) indices = Inl e \<longrightarrow>
         fst (NonLazyTensor_getitem getitem self indices) = Inl e)) \<and>
   (length indices < 2 \<longrightarrow>
      fst (NonLazyTensor_getitem getitem self indices) =
        then_call (getitem (tensor self) indices)
          (\<lambda>res. Inl (IndexError ''tuple index out of range'')))"
proof (intro conjI allI impI)
  show "fst (NonLazyTensor_get_indices getitem self left_indices right_indices batch_indices) =
          getitem (tensor self) (batch_indices @ [left_indices, right_indices])"
    by (simp add: NonLazyTensor_get_indices_def)
next
  fix v assume v: "fst (NonLazyTensor_getitem getitem self indices) = Inr v"
  show "\<exists>res. getitem (tensor self) indices = Inr res \<and> entries_of v = Some res"
  proof (cases "2 \<le> length indices")
    case True
    with v show ?thesis
      by (auto simp: getitem_result then_call_def NonLazyTensor_evaluate_def
            split: sum.splits if_splits)
  next
    case False
    with v show ?thesis
      by (auto simp: getitem_short then_call_def split: sum.splits)
  qed
next
  fix res assume "2 \<le> length indices" "getitem (tensor self) indices = Inr res"
  then show "\<exists>v. fst (NonLazyTensor_getitem getitem self indices) = Inr v \<and> entries_of v = Some res"
    by (simp add: getitem_result then_call_def NonLazyTensor_evaluate_def)
next
  fix e assume "2 \<le> length indices" "getitem (tensor self) indices = Inl e"
  then show "fst (NonLazyTensor_getitem getitem self indices) = Inl e"
    by (simp add: getitem_result then_call_def)
next
  assume "length indices < 2"
  then show "fst (NonLazyTensor_getitem getitem self indices) =
        then_call (getitem (tensor self) indices)
          (\<lambda>res. Inl (IndexError ''tuple index out of range''))"
    by (rule getitem_short)
qed

theorem indexing_delegates_witness:
  "fst (NonLazyTensor_get_indices basic_getitem \<lparr>tensor = M23\<rparr> (PyInt 0) full_slice []) =
     Inr (Tensor [3] [1, 2, 3]) \<and>
   (\<exists>v. fst (NonLazyTensor_getitem basic_getitem \<lparr>tensor = M23\<rparr> [full_slice, PyInt (- 1)]) = Inr v \<and>
        entries_of v = Some (Tensor [2] [3, 6])) \<and>
   fst (NonLazyTensor_getitem basic_getitem \<lparr>tensor = M23\<rparr> [PyInt 1, PyInt 5]) =
     Inl (IndexError ''index out of range'') \<and>
   fst (NonLazyTensor_getitem basic_getitem \<lparr>tensor = M23\<rparr> [full_slice]) =
     Inl (IndexError ''tuple index out of range'')"
  using indexing_delegates[of basic_getitem "\<lparr>tensor = M23\<rparr>" "PyInt 0" full_slice "[]"
          "[full_slice, PyInt (- 1)]"]
        indexing_delegates[of basic_getitem "\<lparr>tensor = M23\<rparr>" "PyInt 0" full_slice "[]"
          "[PyInt 1, PyInt 5]"]
        indexing_delegates[of basic_getitem "\<lparr>tensor = M23\<rparr>" "PyInt 0" full_slice "[]"
          "[full_slice]"]
  by (simp add: basic_getitem_row basic_getitem_column basic_getitem_out_of_range
        basic_getitem_one_slice then_call_def)

text \<open>
  C4 as first stated, for every index tuple, fails on a tuple of one entry: the first row
  of the example matrix is \<^verbatim>\<open>T[(0,)]\<close>, and \<^verbatim>\<open>_getitem(0)\<close> raises instead of producing it.
\<close>

theorem getitem_one_index_counterexample:
  "basic_getitem M23 [PyInt 0] = Inr (Tensor [3] [1, 2, 3]) \<and>
   fst (NonLazyTensor_getitem basic_getitem \<lparr>tensor = M23\<rparr> [PyInt 0]) =
     Inl (IndexError ''tuple index out of range'')"
  by (simp add: basic_getitem_first_only getitem_short then_call_def)

text \<open>
  C5. \<^verbatim>\<open>diag()\<close> returns \<^verbatim>\<open>T.diagonal(dim1=-2, dim2=-1)\<close> and \<^verbatim>\<open>_size()\<close> returns \<^verbatim>\<open>T.size()\<close>. For a
  matrix or a batch of matrices, of shape \<open>bs @ [m, n]\<close>, the diagonal has shape
  \<open>bs @ [min m n]\<close> and its entry \<open>i\<close> in batch \<open>b\<close> is the entry \<open>(i, i)\<close> of the matrix of batch
  \<open>b\<close>: the diagonal of the last two dimensions.
\<close>

theorem diag_and_size_delegate:
  "fst (NonLazyTensor_diag self) = torch_diagonal (tensor self) (- 2) (- 1) \<and>
   fst (NonLazyTensor_size self) = torch_size (tensor self) \<and>
   (\<forall>bs m n. shape (tensor self) = bs @ [m, n] \<longrightarrow>
      (\<exists>d. fst (NonLazyTensor_diag self) = Inr d \<and> shape d = bs @ [min m n] \<and>
           (\<forall>b i. valid_index bs b \<and> i < min m n \<longrightarrow>
              entry d (b @ [i]) = entry (tensor self) (b @ [i, i]))) \<and>
      fst (NonLazyTensor_size self) = bs @ [m, n])"
  using torch_diagonal_entries[of "tensor self"]
  by (simp add: NonLazyTensor_diag_def NonLazyTensor_size_def torch_size_def)

theorem diag_and_size_delegate_witness:
  "fst (NonLazyTensor_size \<lparr>tensor = M23\<rparr>) = [2, 3] \<and>
   (\<exists>d. fst (NonLazyTensor_diag \<lparr>tensor = M23\<rparr>) = Inr d \<and> shape d = [2] \<and>
        entry d [0] = 1 \<and> entry d [1] = 5) \<and>
   fst (NonLazyTensor_diag \<lparr>tensor = M23\<rparr>) = Inr (Tensor [2] [1, 5])"
proof -
  let ?self = "\<lparr>tensor = M23\<rparr>"
  have sh: "shape (tensor ?self) = [] @ [2, 3]" by (simp add: M23_def)
  have v: "valid_index [] []" by (simp add: valid_index_def)
  from diag_and_size_delegate[of ?self] sh
  obtain d where d: "fst (NonLazyTensor_diag ?self) = Inr d" "shape d = [] @ [min 2 3]"
    and e: "\<forall>b i. valid_index [] b \<and> i < min 2 3 \<longrightarrow>
              entry d (b @ [i]) = entry (tensor ?self) (b @ [i, i])"
    and sz: "fst (NonLazyTensor_size ?self) = [] @ [2, 3]"
    by blast
  from e v have "entry d ([] @ [0]) = entry (tensor ?self) ([] @ [0, 0])"
    by (metis min_less_iff_conj zero_less_numeral)
  moreover from e v have "entry d ([] @ [1]) = entry (tensor ?self) ([] @ [1, 1])"
    by (metis min_less_iff_conj one_less_numeral_iff semiring_norm(76) semiring_norm(77))
  moreover have "fst (NonLazyTensor_diag ?self) = Inr (Tensor [2] [1, 5])"
    using diag_and_size_delegate[of ?self] by (simp add: M23_diagonal)
  ultimately show ?thesis using d sz by (simp add: M23_diagonal_entries del: One_nat_def)
qed

text \<open>
  C6. Wrapping and then materialising gives the tensor back: for every tensor \<open>t\<close>,
  \<^verbatim>\<open>NonLazyTensor(t).evaluate()\<close> is \<open>t\<close> and \<^verbatim>\<open>lazify(t).evaluate()\<close> is \<open>t\<close>.
\<close>

theorem wrap_then_evaluate:
  "(\<exists>new. NonLazyTensor_init (PyTensor t) = Inr new \<and> fst (NonLazyTensor_evaluate new) = t) \<and>
   (\<exists>new. lazify (PyTensor t) = Inr (PyNonLazyTensor new) \<and> fst (NonLazyTensor_evaluate new) = t)"
  by (simp add: NonLazyTensor_init_tensor lazify_def NonLazyTensor_evaluate_def)

theorem wrap_then_evaluate_witness:
  "(\<exists>new. NonLazyTensor_init (PyTensor M23) = Inr new \<and> fst (NonLazyTensor_evaluate new) = M23) \<and>
   (\<exists>new. lazify (PyTensor M23) = Inr (PyNonLazyTensor new) \<and> fst (NonLazyTensor_evaluate new) = M23)"
  using wrap_then_evaluate[of M23] by simp

text \<open>
  C7. \<^verbatim>\<open>_quad_form_derivative(left_vecs, right_vecs)\<close> returns the one-element tuple of
  \<^verbatim>\<open>left_vecs.matmul(right_vecs.transpose(-1, -2))\<close> (and raises what that expression raises),
  and its result is the same for every wrapped tensor.
\<close>

theorem quad_form_derivative_result:
  "fst (NonLazyTensor_quad_form_derivative self left_vecs right_vecs) =
     then_call (torch_transpose right_vecs (- 1) (- 2))
       (\<lambda>rt. then_call (torch_matmul left_vecs rt) (\<lambda>res. Inr [res])) \<and>
   fst (NonLazyTensor_quad_form_derivative self left_vecs right_vecs) =
     fst (NonLazyTensor_quad_form_derivative other left_vecs right_vecs)"
  by (simp add: NonLazyTensor_quad_form_derivative_def then_call_def split: sum.splits)

theorem quad_form_derivative_result_witness:
  "fst (NonLazyTensor_quad_form_derivative \<lparr>tensor = M23\<rparr>
          (Tensor [2, 2] [1, 0, 0, 1]) (Tensor [3, 2] [1, 2, 3, 4, 5, 6])) =
     Inr [Tensor [2, 3] [1, 3, 5, 2, 4, 6]] \<and>
   fst (NonLazyTensor_quad_form_derivative \<lparr>tensor = Tensor [] [7]\<rparr>
          (Tensor [2, 2] [1, 0, 0, 1]) (Tensor [3, 2] [1, 2, 3, 4, 5, 6])) =
     Inr [Tensor [2, 3] [1, 3, 5, 2, 4, 6 :: int]]"
  using quad_form_derivative_result[of "\<lparr>tensor = M23\<rparr>" "Tensor [2, 2] [1, 0, 0, 1]"
          "Tensor [3, 2] [1, 2, 3, 4, 5, 6]" "\<lparr>tensor = Tensor [] [7]\<rparr>"]
  by (auto simp: M32_transpose identity_matmul then_call_def)



text \<open>
  C9. \<^verbatim>\<open>A._t_matmul(rhs)\<close> equals \<^verbatim>\<open>A._transpose_nonbatch()._matmul(rhs)\<close>, result or exception,
  for every \<open>A\<close> and \<open>rhs\<close>. A right-hand side can be compatible only when \<open>A\<close> wraps a
  matrix or a batch of matrices, a tensor of at least two dimensions; and then transposing
  twice succeeds and gives a \<^verbatim>\<open>NonLazyTensor\<close> whose wrapped tensor is the original one.
\<close>

theorem transpose_consistent:
  "fst (NonLazyTensor_t_matmul A rhs) =
     then_call (fst (NonLazyTensor_transpose_nonbatch A)) (\<lambda>B. fst (NonLazyTensor_matmul B rhs)) \<and>
   (\<forall>r. fst (NonLazyTensor_t_matmul A rhs) = Inr r \<longrightarrow> 2 \<le> ndim (tensor A)) \<and>
   (wf_tensor (tensor A) \<and> 2 \<le> ndim (tensor A) \<longrightarrow>
      (\<exists>B C. fst (NonLazyTensor_transpose_nonbatch A) = Inr B \<and>
             fst (NonLazyTensor_transpose_nonbatch B) = Inr C \<and> tensor C = tensor A))"
proof (intro conjI impI allI)
  show "fst (NonLazyTensor_t_matmul A rhs) =
     then_call (fst (NonLazyTensor_transpose_nonbatch A)) (\<lambda>B. fst (NonLazyTensor_matmul B rhs))"
    by (simp add: NonLazyTensor_t_matmul_def NonLazyTensor_transpose_nonbatch_def
          NonLazyTensor_matmul_def NonLazyTensor_init_tensor then_call_def split: sum.splits)
next
  fix r assume "fst (NonLazyTensor_t_matmul A rhs) = Inr r"
  then show "2 \<le> ndim (tensor A)" by (rule t_matmul_needs_matrix)
next
  assume "wf_tensor (tensor A) \<and> 2 \<le> ndim (tensor A)"
  then obtain t' where 1: "torch_transpose (tensor A) (- 1) (- 2) = Inr t'"
    and 2: "torch_transpose t' (- 1) (- 2) = Inr (tensor A)"
    using torch_transpose_involution by blast
  have "fst (NonLazyTensor_transpose_nonbatch A) = Inr \<lparr>tensor = t'\<rparr>"
    by (simp add: NonLazyTensor_transpose_nonbatch_def 1 NonLazyTensor_init_tensor)
  moreover have "fst (NonLazyTensor_transpose_nonbatch \<lparr>tensor = t'\<rparr>) = Inr \<lparr>tensor = tensor A\<rparr>"
    by (simp add: NonLazyTensor_transpose_nonbatch_def 2 NonLazyTensor_init_tensor)
  ultimately show "\<exists>B C. fst (NonLazyTensor_transpose_nonbatch A) = Inr B \<and>
             fst (NonLazyTensor_transpose_nonbatch B) = Inr C \<and> tensor C = tensor A"
    by auto
qed

theorem transpose_consistent_witness:
  "fst (NonLazyTensor_t_matmul \<lparr>tensor = M23\<rparr> (Tensor [2] [1, 1])) = Inr (Tensor [3] [5, 7, 9]) \<and>
   fst (NonLazyTensor_transpose_nonbatch \<lparr>tensor = M23\<rparr>) = Inr \<lparr>tensor = Tensor [3, 2] [1, 4, 2, 5, 3, 6]\<rparr> \<and>
   (\<exists>C. fst (NonLazyTensor_transpose_nonbatch \<lparr>tensor = Tensor [3, 2] [1, 4, 2, 5, 3, 6]\<rparr>) = Inr C \<and> tensor C = M23)"
proof -
  have tr: "fst (NonLazyTensor_transpose_nonbatch \<lparr>tensor = M23\<rparr>) = Inr \<lparr>tensor = Tensor [3, 2] [1, 4, 2, 5, 3, 6]\<rparr>"
    by (simp add: NonLazyTensor_transpose_nonbatch_def M23_transpose NonLazyTensor_init_tensor)
  have mm: "fst (NonLazyTensor_matmul \<lparr>tensor = Tensor [3, 2] [1, 4, 2, 5, 3, 6]\<rparr> (Tensor [2] [1, 1 :: int])) = Inr (Tensor [3] [5, 7, 9])"
    by (simp add: NonLazyTensor_matmul_def M23_t_matmul)
  show ?thesis
    using transpose_consistent[of "\<lparr>tensor = M23\<rparr>" "Tensor [2] [1, 1]"] M23_is_matrix
    by (auto simp: tr mm then_call_def)
qed

text \<open>
  C10. No method changes the object: after a call of \<^verbatim>\<open>_matmul\<close>, \<^verbatim>\<open>_t_matmul\<close>, \<^verbatim>\<open>_getitem\<close>,
  \<^verbatim>\<open>_get_indices\<close>, \<^verbatim>\<open>_quad_form_derivative\<close>, \<^verbatim>\<open>_size\<close>, \<^verbatim>\<open>_transpose_nonbatch\<close>, \<^verbatim>\<open>diag\<close> or
  \<^verbatim>\<open>evaluate\<close>, whether it returned or raised, \<open>self\<close> and so \<^verbatim>\<open>self.tensor\<close> are what they
  were before.
\<close>

theorem methods_leave_self:
  "snd (NonLazyTensor_matmul self rhs) = self \<and>
   snd (NonLazyTensor_t_matmul self rhs) = self \<and>
   snd (NonLazyTensor_getitem getitem self indices) = self \<and>
   snd (NonLazyTensor_get_indices getitem self left_indices right_indices batch_indices) = self \<and>
   snd (NonLazyTensor_quad_form_derivative self left_vecs right_vecs) = self \<and>
   snd (NonLazyTensor_size self) = self \<and>
   snd (NonLazyTensor_transpose_nonbatch self) = self \<and>
   snd (NonLazyTensor_diag self) = self \<and>
   snd (NonLazyTensor_evaluate self) = self"
  by (simp add: NonLazyTensor_matmul_def NonLazyTensor_t_matmul_def NonLazyTensor_getitem_def
        NonLazyTensor_get_indices_def NonLazyTensor_quad_form_derivative_def NonLazyTensor_size_def
        NonLazyTensor_transpose_nonbatch_def NonLazyTensor_diag_def NonLazyTensor_evaluate_def
        split: sum.splits)

theorem methods_leave_self_witness:
  "snd (NonLazyTensor_matmul \<lparr>tensor = M23\<rparr> (Tensor [2] [1, 1])) = \<lparr>tensor = M23\<rparr> \<and>
   snd (NonLazyTensor_getitem basic_getitem \<lparr>tensor = M23\<rparr> [PyInt 0, full_slice]) = \<lparr>tensor = M23\<rparr> \<and>
   snd (NonLazyTensor_transpose_nonbatch \<lparr>tensor = M23\<rparr>) = \<lparr>tensor = M23\<rparr> \<and>
   tensor (snd (NonLazyTensor_diag \<lparr>tensor = M23\<rparr>)) = M23"
  using methods_leave_self[of "\<lparr>tensor = M23\<rparr>" "Tensor [2] [1, 1]" basic_getitem
          "[PyInt 0, full_slice]"]
  by simp

end
